theory Spec2Isabelle
  imports Complex_Main
begin

section \<open>Python values\<close>

text \<open>
  A Python \<open>str\<close> is a sequence of Unicode code points, and \<open>len\<close>, slicing, \<open>strip\<close> and
  the \<open>re\<close> module all count code points. A string is therefore a list of code points
  (natural numbers); \<open>lit\<close> embeds an ASCII literal of the source.
\<close>

type_synonym pystr = "nat list"

definition lit :: "string \<Rightarrow> pystr" where
  "lit s = map of_char s"

definition apostrophe :: pystr where
  "apostrophe = [39]"

text \<open>
  The values that reach the tool functions are the values of JSON documents (tool arguments
  chosen by the language model, bodies of HTTP responses): \<open>None\<close>, booleans, integers,
  floats, strings, lists and dictionaries with string keys. Of a float the code observes
  only whether it is zero, so no floating-point arithmetic is modelled. A dictionary is an
  association list read with \<open>map_of\<close>.
\<close>

datatype pyfloat = Finite real | Infinity bool | NaN

datatype pyval =
    PNone
  | PBool bool
  | PInt int
  | PFloat pyfloat
  | PStr pystr
  | PList "pyval list"
  | PDict "(pystr \<times> pyval) list"

type_synonym pydict = "(pystr \<times> pyval) list"

text \<open>Truth value testing, as \<open>not x\<close> and \<open>x and y\<close> apply it.\<close>

fun truthy :: "pyval \<Rightarrow> bool" where
  "truthy PNone = False"
| "truthy (PBool b) = b"
| "truthy (PInt i) = (i \<noteq> 0)"
| "truthy (PFloat f) = (f \<noteq> Finite 0)"
| "truthy (PStr s) = (s \<noteq> [])"
| "truthy (PList xs) = (xs \<noteq> [])"
| "truthy (PDict kvs) = (kvs \<noteq> [])"

text \<open>\<open>isinstance(x, str)\<close> and \<open>isinstance(x, dict)\<close>.\<close>

fun is_str :: "pyval \<Rightarrow> bool" where
  "is_str (PStr s) = True"
| "is_str _ = False"

fun is_dict :: "pyval \<Rightarrow> bool" where
  "is_dict (PDict kvs) = True"
| "is_dict _ = False"

text \<open>\<open>d.get(key, default)\<close>; \<open>d.get(key)\<close> is \<open>dict_get d key PNone\<close>.\<close>

definition dict_get :: "pydict \<Rightarrow> pystr \<Rightarrow> pyval \<Rightarrow> pyval" where
  "dict_get d k dflt = (case map_of d k of None \<Rightarrow> dflt | Some v \<Rightarrow> v)"

text \<open>The name of a value's type, as it appears in the interpreter's error messages.\<close>

fun type_name :: "pyval \<Rightarrow> pystr" where
  "type_name PNone = lit ''NoneType''"
| "type_name (PBool b) = lit ''bool''"
| "type_name (PInt i) = lit ''int''"
| "type_name (PFloat f) = lit ''float''"
| "type_name (PStr s) = lit ''str''"
| "type_name (PList xs) = lit ''list''"
| "type_name (PDict kvs) = lit ''dict''"

text \<open>
  \<open>str(n)\<close> for a non-negative integer: its decimal digits (\<open>48\<close> is the code point of
  the digit zero).
\<close>

fun str_nat :: "nat \<Rightarrow> pystr" where
  "str_nat n = (if n < 10 then [48 + n] else str_nat (n div 10) @ [48 + n mod 10])"

declare str_nat.simps [simp del]

text \<open>
  What an f-string writes for a value. The source formats only strings (the team name
  once it has passed the \<open>isinstance\<close> check, and texts built from strings), so the
  rendering of the other types is left unspecified.
\<close>

fun format_value :: "pyval \<Rightarrow> pystr" where
  "format_value (PStr s) = s"
| "format_value v = undefined"


section \<open>Exceptions\<close>

text \<open>
  An exception is its class and the text \<open>str(e)\<close>. The classes are those the code
  distinguishes or the interpreter raises on the modelled operations; \<open>Exception\<close> stands
  for any other subclass of \<open>Exception\<close>. \<open>Timeout\<close> and \<open>RequestException\<close> are the classes
  of \<open>requests.exceptions\<close>, \<open>JSONDecodeError\<close> is the class of the \<open>json\<close> module.
  Signals that derive from \<open>BaseException\<close> alone are not raised by the modelled operations;
  \<open>sys.exit\<close> is modelled separately in the command-line runner.
\<close>

datatype exn_class =
    Timeout
  | RequestException
  | JSONDecodeError
  | TypeError
  | AttributeError
  | KeyError
  | IndexError
  | Exception

datatype exn = Exn (exn_class_of: exn_class) (exn_str: pystr)

fun is_subclass :: "exn_class \<Rightarrow> exn_class \<Rightarrow> bool" where
  "is_subclass c Exception = True"
| "is_subclass Timeout RequestException = True"
| "is_subclass c d = (c = d)"

text \<open>\<open>except cls\<close> catches \<open>e\<close> when \<open>isinstance e cls\<close>.\<close>

definition isinstance :: "exn \<Rightarrow> exn_class \<Rightarrow> bool" where
  "isinstance e cls = is_subclass (exn_class_of e) cls"


section \<open>Team search: \<open>search_teams\<close>\<close>

subsection \<open>Whitespace and the name pattern\<close>

text \<open>
  \<open>str.strip()\<close> and the class \<open>\s\<close> of a \<open>str\<close> pattern use the same predicate on code
  points, the one of \<open>str.isspace\<close>.
\<close>

definition isspace :: "nat \<Rightarrow> bool" where
  "isspace c \<longleftrightarrow>
     (9 \<le> c \<and> c \<le> 13) \<or> (28 \<le> c \<and> c \<le> 32) \<or> c = 133 \<or> c = 160 \<or> c = 5760 \<or>
     (8192 \<le> c \<and> c \<le> 8202) \<or> c = 8232 \<or> c = 8233 \<or> c = 8239 \<or> c = 8287 \<or> c = 12288"

definition strip :: "pystr \<Rightarrow> pystr" where
  "strip s = rev (dropWhile isspace (rev (dropWhile isspace s)))"

text \<open>\<open>team_name.strip()\<close>: only a string has the method.\<close>

fun py_strip :: "pyval \<Rightarrow> exn + pystr" where
  "py_strip (PStr s) = Inr (strip s)"
| "py_strip v = Inl (Exn AttributeError
     (apostrophe @ type_name v @ apostrophe @ lit '' object has no attribute '' @
      apostrophe @ lit ''strip'' @ apostrophe))"

text \<open>
  The character class \<open>[a-zA-Z0-9\s\-\.\'&]\<close>.
\<close>

definition team_name_char :: "nat \<Rightarrow> bool" where
  "team_name_char c \<longleftrightarrow>
     (of_char CHR ''a'' \<le> c \<and> c \<le> of_char CHR ''z'') \<or>
     (of_char CHR ''A'' \<le> c \<and> c \<le> of_char CHR ''Z'') \<or>
     (of_char CHR ''0'' \<le> c \<and> c \<le> of_char CHR ''9'') \<or>
     isspace c \<or>
     c = of_char CHR ''-'' \<or> c = of_char CHR ''.'' \<or> c = of_char CHR 0x27 \<or>
     c = of_char CHR ''&''"

text \<open>
  \<open>re.match(r'^[a-zA-Z0-9\s\-\.\'&]+$', s)\<close> succeeds exactly when \<open>s\<close> is not empty and
  all its characters are in the class: \<open>$\<close> also matches before a final newline, but the
  newline is in the class, so a string with a character outside the class has no match.
\<close>

definition team_name_match :: "pystr \<Rightarrow> bool" where
  "team_name_match s \<longleftrightarrow> s \<noteq> [] \<and> list_all team_name_char s"

subsection \<open>The HTTP library\<close>

text \<open>
  \<open>requests.get\<close> is a parameter of the model: a function from the request to either the
  exception it raises or the response. Of a response the code uses \<open>raise_for_status()\<close>
  (the exception it raises, if any), \<open>json()\<close> (an exception or the decoded body) and
  \<open>headers.get('date', ...)\<close>. The adapter returns the list of requests it has issued
  together with its result, so that the number of network calls can be stated.
\<close>

record http_request =
  url :: pystr
  params :: "(pystr \<times> pystr) list"
  timeout :: nat
  headers :: "(pystr \<times> pystr) list"

record http_response =
  raise_for_status :: "exn option"
  json :: "exn + pyval"
  header_date :: "pystr option"

type_synonym requests_get = "http_request \<Rightarrow> exn + http_response"

definition team_request :: "pystr \<Rightarrow> http_request" where
  "team_request team_name_clean =
     \<lparr>url = lit ''https://www.thesportsdb.com/api/v1/json/962825/searchteams.php'',
      params = [(lit ''t'', team_name_clean)],
      timeout = 10,
      headers = [(lit ''User-Agent'', lit ''Sports-Events-Agent/1.0''),
                 (lit ''Accept'', lit ''application/json'')]\<rparr>"

subsection \<open>The operations of the description expression\<close>

text \<open>
  \<open>len(v)\<close>, \<open>v[:n]\<close> and \<open>v + '...'\<close> on a JSON value, with the \<open>TypeError\<close> the interpreter
  raises where the operation is not defined (slicing a dictionary is a \<open>TypeError\<close> up to
  Python 3.11 and a \<open>KeyError\<close> from 3.12; both are caught by the same handler).
\<close>

fun py_len :: "pyval \<Rightarrow> exn + nat" where
  "py_len (PStr s) = Inr (length s)"
| "py_len (PList xs) = Inr (length xs)"
| "py_len (PDict kvs) = Inr (length kvs)"
| "py_len v = Inl (Exn TypeError
     (lit ''object of type '' @ apostrophe @ type_name v @ apostrophe @ lit '' has no len()''))"

fun py_slice_to :: "nat \<Rightarrow> pyval \<Rightarrow> exn + pyval" where
  "py_slice_to n (PStr s) = Inr (PStr (take n s))"
| "py_slice_to n (PList xs) = Inr (PList (take n xs))"
| "py_slice_to n (PDict kvs) = Inl (Exn TypeError
     (lit ''unhashable type: '' @ apostrophe @ lit ''slice'' @ apostrophe))"
| "py_slice_to n v = Inl (Exn TypeError
     (apostrophe @ type_name v @ apostrophe @ lit '' object is not subscriptable''))"

fun py_add_str :: "pyval \<Rightarrow> pystr \<Rightarrow> exn + pyval" where
  "py_add_str (PStr s) t = Inr (PStr (s @ t))"
| "py_add_str (PList xs) t = Inl (Exn TypeError
     (lit ''can only concatenate list (not \"str\") to list''))"
| "py_add_str v t = Inl (Exn TypeError
     (lit ''unsupported operand type(s) for +: '' @ apostrophe @ type_name v @ apostrophe @
      lit '' and '' @ apostrophe @ lit ''str'' @ apostrophe))"

text \<open>
  \<open>for team in teams_data\<close>: a list yields its elements, a string its characters, a
  dictionary its keys; the other values are not iterable.
\<close>

fun py_iter :: "pyval \<Rightarrow> exn + pyval list" where
  "py_iter (PList xs) = Inr xs"
| "py_iter (PStr s) = Inr (map (\<lambda>c. PStr [c]) s)"
| "py_iter (PDict kvs) = Inr (map (\<lambda>kv. PStr (fst kv)) kvs)"
| "py_iter v = Inl (Exn TypeError
     (apostrophe @ type_name v @ apostrophe @ lit '' object is not iterable''))"

subsection \<open>Normalising one team record\<close>

text \<open>
  The conditional expression of the \<open>description\<close> entry. Python reads it as
  \<open>(d[:200] + '...') if (team.get(k) and len(team.get(k, '')) > 200) else team.get(k, '')\<close>:
  the condition first, then one of the two branches.
\<close>

definition description :: "pydict \<Rightarrow> exn + pyval" where
  "description team =
     (if \<not> truthy (dict_get team (lit ''strDescriptionEN'') PNone)
      then Inr (dict_get team (lit ''strDescriptionEN'') (PStr []))
      else
        (case py_len (dict_get team (lit ''strDescriptionEN'') (PStr [])) of
           Inl e \<Rightarrow> Inl e
         | Inr n \<Rightarrow>
             if n > 200 then
               (case py_slice_to 200 (dict_get team (lit ''strDescriptionEN'') (PStr [])) of
                  Inl e \<Rightarrow> Inl e
                | Inr d \<Rightarrow> py_add_str d (lit ''...''))
             else Inr (dict_get team (lit ''strDescriptionEN'') (PStr []))))"

text \<open>
  The dictionary display \<open>processed_team\<close>. Its entries are evaluated in order; only the
  \<open>description\<close> entry can raise.
\<close>

definition process_team :: "pydict \<Rightarrow> exn + pydict" where
  "process_team team =
     (case description team of
        Inl e \<Rightarrow> Inl e
      | Inr d \<Rightarrow> Inr
          [(lit ''team_id'', dict_get team (lit ''idTeam'') PNone),
           (lit ''team_name'', dict_get team (lit ''strTeam'') (PStr (lit ''Unknown''))),
           (lit ''alternate_name'', dict_get team (lit ''strAlternate'') (PStr [])),
           (lit ''league'', dict_get team (lit ''strLeague'') (PStr (lit ''Unknown League''))),
           (lit ''sport'', dict_get team (lit ''strSport'') (PStr (lit ''Unknown Sport''))),
           (lit ''founded'', dict_get team (lit ''intFormedYear'') (PStr [])),
           (lit ''venue'', dict_get team (lit ''strStadium'') (PStr (lit ''Unknown Venue''))),
           (lit ''location'', dict_get team (lit ''strLocation'') (PStr (lit ''Unknown Location''))),
           (lit ''description'', d),
           (lit ''website'', dict_get team (lit ''strWebsite'') (PStr [])),
           (lit ''logo'', dict_get team (lit ''strTeamBadge'') (PStr [])),
           (lit ''jersey'', dict_get team (lit ''strTeamJersey'') (PStr [])),
           (lit ''country'', dict_get team (lit ''strCountry'') (PStr (lit ''Unknown'')))])"

text \<open>
  The loop over \<open>teams_data\<close>: an element is processed when it is truthy and a dictionary,
  and skipped otherwise; the first exception ends the loop. The accumulator is
  \<open>processed_teams\<close>.
\<close>

fun process_teams :: "pyval list \<Rightarrow> pyval list \<Rightarrow> exn + pyval list" where
  "process_teams [] processed_teams = Inr processed_teams"
| "process_teams (team # rest) processed_teams =
     (case team of
        PDict t \<Rightarrow>
          if truthy team then
            (case process_team t of
               Inl e \<Rightarrow> Inl e
             | Inr processed_team \<Rightarrow>
                 process_teams rest (processed_teams @ [PDict processed_team]))
          else process_teams rest processed_teams
      | _ \<Rightarrow> process_teams rest processed_teams)"

subsection \<open>The results\<close>

text \<open>The dictionaries the function returns, in the order of the source.\<close>

definition invalid_input_result :: "pyval \<Rightarrow> pydict" where
  "invalid_input_result team_name =
     [(lit ''error'',
         PStr (lit ''Invalid team name provided. Please provide a valid team name string.'')),
      (lit ''team_name'', team_name),
      (lit ''validation_failed'', PBool True),
      (lit ''success'', PBool False)]"

definition invalid_format_result :: "pyval \<Rightarrow> pydict" where
  "invalid_format_result team_name =
     [(lit ''error'',
         PStr (lit ''Invalid team name format. Use only letters, numbers, spaces and basic punctuation.'')),
      (lit ''team_name'', team_name),
      (lit ''validation_failed'', PBool True),
      (lit ''success'', PBool False)]"

definition too_long_result :: "pyval \<Rightarrow> pydict" where
  "too_long_result team_name =
     [(lit ''error'', PStr (lit ''Team name too long. Maximum 50 characters allowed.'')),
      (lit ''team_name'', team_name),
      (lit ''validation_failed'', PBool True),
      (lit ''success'', PBool False)]"

definition api_error_result :: "pystr \<Rightarrow> pydict" where
  "api_error_result team_name_clean =
     [(lit ''error'', PStr (lit ''Invalid response format from sports API'')),
      (lit ''team_name'', PStr team_name_clean),
      (lit ''api_error'', PBool True),
      (lit ''success'', PBool False)]"

definition no_teams_result :: "pystr \<Rightarrow> pydict" where
  "no_teams_result team_name_clean =
     [(lit ''teams'', PList []),
      (lit ''count'', PInt 0),
      (lit ''message'',
         PStr (lit ''No teams found matching '' @ apostrophe @ team_name_clean @ apostrophe @
               lit ''. Try different spelling or a more specific name.'')),
      (lit ''search_term'', PStr team_name_clean),
      (lit ''success'', PBool True),
      (lit ''timestamp'', PNone)]"

definition found_result :: "pystr \<Rightarrow> http_response \<Rightarrow> pyval list \<Rightarrow> pydict" where
  "found_result team_name_clean response processed_teams =
     [(lit ''teams'', PList processed_teams),
      (lit ''count'', PInt (int (length processed_teams))),
      (lit ''search_term'', PStr team_name_clean),
      (lit ''api_source'', PStr (lit ''TheSportsDB'')),
      (lit ''success'', PBool True),
      (lit ''timestamp'',
         PStr (case header_date response of None \<Rightarrow> lit ''Unknown'' | Some d \<Rightarrow> d)),
      (lit ''message'',
         PStr (lit ''Found '' @ str_nat (length processed_teams) @ lit '' team(s) matching '' @
               apostrophe @ team_name_clean @ apostrophe))]"

definition timeout_result :: "pyval \<Rightarrow> pydict" where
  "timeout_result team_name =
     [(lit ''error'',
         PStr (lit ''Request timed out. The sports API is taking too long to respond. Please try again.'')),
      (lit ''team_name'', team_name),
      (lit ''timeout_error'', PBool True),
      (lit ''success'', PBool False),
      (lit ''timestamp'', PNone)]"

definition network_error_result :: "pyval \<Rightarrow> exn \<Rightarrow> pydict" where
  "network_error_result team_name e =
     [(lit ''error'',
         PStr (lit ''Network error occurred while searching for teams. Please check your connection and try again.'')),
      (lit ''team_name'', team_name),
      (lit ''network_error'', PBool True),
      (lit ''technical_details'', PStr (exn_str e)),
      (lit ''success'', PBool False),
      (lit ''timestamp'', PNone)]"

definition technical_error_result :: "pyval \<Rightarrow> exn \<Rightarrow> pydict" where
  "technical_error_result team_name e =
     [(lit ''error'',
         PStr (lit ''Unable to search for teams matching '' @ apostrophe @
               format_value team_name @ apostrophe @
               lit ''. Please try a different team name or try again later.'')),
      (lit ''team_name'', team_name),
      (lit ''technical_error'', PStr (exn_str e)),
      (lit ''success'', PBool False),
      (lit ''timestamp'', PNone)]"

subsection \<open>The function\<close>

text \<open>
  The statements of the \<open>try\<close> block after the response has arrived: status check,
  decoding, the check of the response's shape, the empty result, and the loop.
\<close>

definition handle_response :: "pystr \<Rightarrow> http_response \<Rightarrow> exn + pydict" where
  "handle_response team_name_clean response =
     (case raise_for_status response of
        Some e \<Rightarrow> Inl e
      | None \<Rightarrow>
          (case json response of
             Inl e \<Rightarrow> Inl e
           | Inr data \<Rightarrow>
               (case data of
                  PDict d \<Rightarrow>
                    (let teams_data = dict_get d (lit ''teams'') (PList []) in
                     if \<not> truthy teams_data \<or> teams_data = PList [PNone]
                     then Inr (no_teams_result team_name_clean)
                     else
                       (case py_iter teams_data of
                          Inl e \<Rightarrow> Inl e
                        | Inr items \<Rightarrow>
                            (case process_teams items [] of
                               Inl e \<Rightarrow> Inl e
                             | Inr processed_teams \<Rightarrow>
                                 Inr (found_result team_name_clean response processed_teams))))
                | _ \<Rightarrow> Inr (api_error_result team_name_clean))))"

text \<open>
  The \<open>try\<close> block: the three validation steps, then the single request. The first
  component of the result lists the requests issued.
\<close>

definition search_teams_try :: "requests_get \<Rightarrow> pyval \<Rightarrow> http_request list \<times> (exn + pydict)" where
  "search_teams_try requests_get team_name =
     (if \<not> truthy team_name \<or> \<not> is_str team_name
      then ([], Inr (invalid_input_result team_name))
      else
        (case py_strip team_name of
           Inl e \<Rightarrow> ([], Inl e)
         | Inr team_name_clean \<Rightarrow>
             if \<not> team_name_match team_name_clean
             then ([], Inr (invalid_format_result team_name))
             else if length team_name_clean > 50
             then ([], Inr (too_long_result team_name))
             else
               ([team_request team_name_clean],
                (case requests_get (team_request team_name_clean) of
                   Inl e \<Rightarrow> Inl e
                 | Inr response \<Rightarrow> handle_response team_name_clean response))))"

text \<open>
  The whole function: the \<open>try\<close> block and its three \<open>except\<close> clauses, tried in order.
  An exception that no clause catches would propagate (\<open>Inl\<close>).
\<close>

definition search_teams :: "requests_get \<Rightarrow> pyval \<Rightarrow> http_request list \<times> (exn + pydict)" where
  "search_teams requests_get team_name =
     (case search_teams_try requests_get team_name of
        (calls, Inr result) \<Rightarrow> (calls, Inr result)
      | (calls, Inl e) \<Rightarrow>
          (calls,
           if isinstance e Timeout then Inr (timeout_result team_name)
           else if isinstance e RequestException then Inr (network_error_result team_name e)
           else if isinstance e Exception then Inr (technical_error_result team_name e)
           else Inl e))"


section \<open>Stock price lookup: \<open>get_stock_price\<close>\<close>

text \<open>
  The \<open>yfinance\<close> library is a parameter of the model. \<open>yf.Ticker(ticker)\<close> raises or gives
  a ticker object; of that object the code reads the property \<open>info\<close> and calls
  \<open>history(period="1d")\<close>, each of which raises or gives a value. A price table is its
  columns, each a list of floats. The adapter returns the list of library calls it has made
  together with its result.
\<close>

type_synonym dataframe = "(pystr \<times> pyfloat list) list"

record yf_ticker =
  info :: "exn + pyval"
  history :: "exn + dataframe"

type_synonym yfinance = "pyval \<Rightarrow> exn + yf_ticker"

datatype yf_call = Ticker pyval | Info | History

text \<open>\<open>info.get(key, default)\<close>: only a dictionary has the method.\<close>

fun py_get :: "pyval \<Rightarrow> pystr \<Rightarrow> pyval \<Rightarrow> exn + pyval" where
  "py_get (PDict d) k dflt = Inr (dict_get d k dflt)"
| "py_get v k dflt = Inl (Exn AttributeError
     (apostrophe @ type_name v @ apostrophe @ lit '' object has no attribute '' @
      apostrophe @ lit ''get'' @ apostrophe))"

text \<open>
  \<open>float(price_data[column].iloc[-1])\<close>: a \<open>KeyError\<close> when the column is missing, an
  \<open>IndexError\<close> when it has no row, the last value otherwise.
\<close>

definition last_value :: "dataframe \<Rightarrow> pystr \<Rightarrow> exn + pyval" where
  "last_value price_data column =
     (case map_of price_data column of
        None \<Rightarrow> Inl (Exn KeyError (apostrophe @ column @ apostrophe))
      | Some rows \<Rightarrow>
          if rows = [] then Inl (Exn IndexError (lit ''single positional indexer is out-of-bounds''))
          else Inr (PFloat (last rows)))"

text \<open>The dictionary display of the \<open>return\<close> statement, its entries evaluated in order.\<close>

definition stock_result :: "pyval \<Rightarrow> dataframe \<Rightarrow> pyval \<Rightarrow> exn + pydict" where
  "stock_result info_value price_data ticker =
     (case py_get info_value (lit ''shortName'') (PStr (lit ''Unknown'')) of
        Inl e \<Rightarrow> Inl e
      | Inr company_name \<Rightarrow>
     (case last_value price_data (lit ''Close'') of
        Inl e \<Rightarrow> Inl e
      | Inr current_price \<Rightarrow>
     (case last_value price_data (lit ''High'') of
        Inl e \<Rightarrow> Inl e
      | Inr daily_high \<Rightarrow>
     (case last_value price_data (lit ''Low'') of
        Inl e \<Rightarrow> Inl e
      | Inr daily_low \<Rightarrow>
     (case py_get info_value (lit ''currency'') (PStr (lit ''USD'')) of
        Inl e \<Rightarrow> Inl e
      | Inr currency \<Rightarrow> Inr
          [(lit ''company_name'', company_name),
           (lit ''current_price'', current_price),
           (lit ''daily_high'', daily_high),
           (lit ''daily_low'', daily_low),
           (lit ''currency'', currency),
           (lit ''ticker'', ticker)])))))"

definition get_stock_price_try :: "yfinance \<Rightarrow> pyval \<Rightarrow> yf_call list \<times> (exn + pydict)" where
  "get_stock_price_try yf ticker =
     (case yf ticker of
        Inl e \<Rightarrow> ([Ticker ticker], Inl e)
      | Inr stock \<Rightarrow>
          (case info stock of
             Inl e \<Rightarrow> ([Ticker ticker, Info], Inl e)
           | Inr info_value \<Rightarrow>
               (case history stock of
                  Inl e \<Rightarrow> ([Ticker ticker, Info, History], Inl e)
                | Inr price_data \<Rightarrow>
                    ([Ticker ticker, Info, History],
                     stock_result info_value price_data ticker))))"

definition stock_error_result :: "pyval \<Rightarrow> exn \<Rightarrow> pydict" where
  "stock_error_result ticker e =
     [(lit ''error'', PStr (lit ''Failed to retrieve stock information: '' @ exn_str e)),
      (lit ''ticker'', ticker)]"

definition get_stock_price :: "yfinance \<Rightarrow> pyval \<Rightarrow> yf_call list \<times> (exn + pydict)" where
  "get_stock_price yf ticker =
     (case get_stock_price_try yf ticker of
        (calls, Inr result) \<Rightarrow> (calls, Inr result)
      | (calls, Inl e) \<Rightarrow>
          (calls,
           if isinstance e Exception then Inr (stock_error_result ticker e) else Inl e))"


section \<open>The command-line runner: \<open>main\<close>\<close>

text \<open>
  The runner's surroundings are parameters: \<open>json.loads\<close> (an exception or the decoded
  value), the agent runtime's \<open>run_async\<close> (the chunks it yields and the exception that ends
  the stream, if any) and \<open>traceback.format_exc()\<close>. Of a chunk the code reads the first
  of the attributes \<open>content\<close>, \<open>text\<close>, \<open>data\<close> that exists, through \<open>str\<close>, and \<open>str(chunk)\<close>
  when none does; a chunk is modelled by these four texts. The world is the text written to
  standard output and the list of messages passed to the runtime. \<open>main\<close> runs once the
  module's import of the agent has succeeded.
\<close>

record chunk =
  chunk_content :: "pystr option"
  chunk_text :: "pystr option"
  chunk_data :: "pystr option"
  chunk_str :: pystr

record runtime =
  json_loads :: "pystr \<Rightarrow> exn + pyval"
  run_async :: "pystr \<Rightarrow> chunk list \<times> exn option"
  format_exc :: "exn \<Rightarrow> pystr"

record world =
  stdout :: pystr
  runtime_calls :: "pystr list"

text \<open>How a block of statements ends: normally, by an exception, or by \<open>sys.exit(n)\<close>.\<close>

datatype control = Completed | Raised exn | SystemExit nat

definition newline :: pystr where
  "newline = [10]"

definition print :: "pystr \<Rightarrow> world \<Rightarrow> world" where
  "print s w = w\<lparr>stdout := stdout w @ s @ newline\<rparr>"

definition chunk_piece :: "chunk \<Rightarrow> pystr" where
  "chunk_piece c =
     (case chunk_content c of
        Some s \<Rightarrow> s
      | None \<Rightarrow>
          (case chunk_text c of
             Some s \<Rightarrow> s
           | None \<Rightarrow> (case chunk_data c of Some s \<Rightarrow> s | None \<Rightarrow> chunk_str c)))"

definition run_agent :: "runtime \<Rightarrow> pystr \<Rightarrow> world \<Rightarrow> world \<times> (exn + pystr)" where
  "run_agent rt user_message w =
     (let w1 = w\<lparr>runtime_calls := runtime_calls w @ [user_message]\<rparr> in
      case run_async rt user_message of
        (chunks, None) \<Rightarrow> (w1, Inr (strip (concat (map chunk_piece chunks))))
      | (chunks, Some e) \<Rightarrow>
          (w1, Inl (Exn Exception
             (lit ''Agent execution error: '' @ exn_str e @ newline @ format_exc rt e))))"

text \<open>The \<open>try\<close> block of \<open>main\<close>; \<open>argv\<close> is \<open>sys.argv\<close>, the script's name first.\<close>

definition main_try :: "runtime \<Rightarrow> pystr list \<Rightarrow> world \<Rightarrow> world \<times> control" where
  "main_try rt argv w =
     (if length argv < 2 then
        (print (lit ''AGENT_ERROR_START'' @ newline @
                lit ''Usage: python agent_runner.py <message> [context_json]'' @ newline @
                lit ''AGENT_ERROR_END'') w,
         SystemExit 1)
      else
        (let user_message = argv ! 1 in
         case (if length argv > 2 then json_loads rt (argv ! 2) else Inr (PDict [])) of
           Inl e \<Rightarrow>
             if isinstance e JSONDecodeError then
               (print (lit ''AGENT_ERROR_START'' @ newline @
                       lit ''Invalid context JSON: '' @ exn_str e @ newline @
                       lit ''AGENT_ERROR_END'') w,
                SystemExit 1)
             else (w, Raised e)
         | Inr user_context \<Rightarrow>
             (case run_agent rt user_message w of
                (w1, Inl e) \<Rightarrow> (w1, Raised e)
              | (w1, Inr response) \<Rightarrow>
                  (print (lit ''AGENT_RESPONSE_END'')
                     (print response (print (lit ''AGENT_RESPONSE_START'') w1)),
                   Completed))))"

text \<open>
  \<open>main\<close>: the \<open>try\<close> block and its \<open>except Exception\<close> clause. \<open>sys.exit\<close> raises
  \<open>SystemExit\<close>, which is not an \<open>Exception\<close> and passes the clause.
\<close>

definition main :: "runtime \<Rightarrow> pystr list \<Rightarrow> world \<Rightarrow> world \<times> control" where
  "main rt argv w =
     (case main_try rt argv w of
        (w1, Raised e) \<Rightarrow>
          if isinstance e Exception then
            (print (lit ''AGENT_ERROR_END'')
               (print (lit ''Error: '' @ exn_str e) (print (lit ''AGENT_ERROR_START'') w1)),
             SystemExit 1)
          else (w1, Raised e)
      | (w1, c) \<Rightarrow> (w1, c))"

text \<open>The exit status of the process that runs \<open>main\<close>.\<close>

fun exit_status :: "control \<Rightarrow> nat" where
  "exit_status Completed = 0"
| "exit_status (SystemExit n) = n"
| "exit_status (Raised e) = 1"


section \<open>Sample surroundings\<close>

text \<open>Concrete libraries and records on which the theorems below are instantiated.\<close>

definition null_teams_api :: requests_get where
  "null_teams_api request =
     Inr \<lparr>raise_for_status = None, json = Inr (PDict [(lit ''teams'', PNone)]),
          header_date = None\<rparr>"

definition timeout_api :: requests_get where
  "timeout_api request = Inl (Exn Timeout (lit ''Read timed out.''))"

definition null_list_api :: requests_get where
  "null_list_api request =
     Inr \<lparr>raise_for_status = None,
          json = Inr (PDict [(lit ''teams'', PList [PNone, PInt 7])]),
          header_date = Some (lit ''Thu, 05 Nov 2026 10:00:00 GMT'')\<rparr>"

definition long_description_team :: pydict where
  "long_description_team =
     [(lit ''strTeam'', PStr (lit ''Arsenal'')),
      (lit ''strDescriptionEN'', PStr (replicate 201 (of_char CHR ''x'')))]"

definition name_only_team :: pydict where
  "name_only_team = [(lit ''strTeam'', PStr (lit ''Arsenal''))]"

definition failing_yf :: yfinance where
  "failing_yf ticker = Inl (Exn Exception (lit ''No data found for this ticker''))"

definition empty_history_yf :: yfinance where
  "empty_history_yf ticker =
     Inr \<lparr>info = Inr (PDict []),
          history = Inr [(lit ''Close'', []), (lit ''High'', []), (lit ''Low'', [])]\<rparr>"

definition sample_yf :: yfinance where
  "sample_yf ticker =
     Inr \<lparr>info = Inr (PDict [(lit ''shortName'', PStr (lit ''Apple Inc.'')),
                              (lit ''currency'', PStr (lit ''USD''))]),
          history = Inr [(lit ''Close'', [Finite 189]), (lit ''High'', [Finite 191]),
                         (lit ''Low'', [Finite 187])]\<rparr>"

definition bad_json_runtime :: runtime where
  "bad_json_runtime =
     \<lparr>json_loads = (\<lambda>s. Inl (Exn JSONDecodeError
                       (lit ''Expecting value: line 1 column 1 (char 0)''))),
      run_async = (\<lambda>message. ([], None)),
      format_exc = (\<lambda>e. [])\<rparr>"

text \<open>
  A runtime whose \<open>json.loads\<close> answers as CPython's does at the two arguments used below:
  the text \<open>NaN\<close> is accepted and decoded to the float \<open>nan\<close> (as are \<open>Infinity\<close> and
  \<open>-Infinity\<close>), although the JSON grammar has no such literal, and \<open>not-json\<close> is
  rejected with a \<open>JSONDecodeError\<close>. The agent answers with the one chunk \<open>Hello\<close>.
\<close>

definition nan_json_runtime :: runtime where
  "nan_json_runtime =
     \<lparr>json_loads = (\<lambda>s. if s = lit ''NaN'' then Inr (PFloat NaN)
                       else Inl (Exn JSONDecodeError
                                  (lit ''Expecting value: line 1 column 1 (char 0)''))),
      run_async = (\<lambda>message.
         ([\<lparr>chunk_content = Some (lit ''Hello''), chunk_text = None, chunk_data = None,
            chunk_str = []\<rparr>], None)),
      format_exc = (\<lambda>e. [])\<rparr>"

definition fresh_world :: world where
  "fresh_world = \<lparr>stdout = [], runtime_calls = []\<rparr>"

definition sample_stock_result :: pydict where
  "sample_stock_result =
     [(lit ''company_name'', PStr (lit ''Apple Inc.'')),
      (lit ''current_price'', PFloat (Finite 189)),
      (lit ''daily_high'', PFloat (Finite 191)),
      (lit ''daily_low'', PFloat (Finite 187)),
      (lit ''currency'', PStr (lit ''USD'')),
      (lit ''ticker'', PStr (lit ''AAPL''))]"


section \<open>Basic facts\<close>

lemma lit_eq_iff [simp]: "lit a = lit b \<longleftrightarrow> a = b"
  unfolding lit_def by (simp add: inj_map_eq_map inj_on_def)

lemma lit_Nil_iff [simp]: "lit a = [] \<longleftrightarrow> a = []"
  by (simp add: lit_def)

lemma length_lit [simp]: "length (lit a) = length a"
  by (simp add: lit_def)

lemma isinstance_Exception [simp]: "isinstance e Exception"
  by (simp add: isinstance_def)

subsection \<open>Stripping\<close>

lemma dropWhile_keeps: "x \<in> set xs \<Longrightarrow> \<not> P x \<Longrightarrow> x \<in> set (dropWhile P xs)"
  by (induction xs) auto

lemma strip_keeps: "c \<in> set s \<Longrightarrow> \<not> isspace c \<Longrightarrow> c \<in> set (strip s)"
  unfolding strip_def by (simp add: dropWhile_keeps)

text \<open>A character outside the class is not whitespace, so stripping does not remove it.\<close>

lemma bad_char_survives_strip:
  assumes "c \<in> set s" "\<not> team_name_char c"
  shows "\<not> team_name_match (strip s)"
proof -
  from assms(2) have "\<not> isspace c" by (auto simp: team_name_char_def)
  with assms(1) have "c \<in> set (strip s)" by (rule strip_keeps)
  with assms(2) show ?thesis by (auto simp: team_name_match_def list_all_iff)
qed

lemma strip_padded:
  assumes "s \<noteq> []" "\<not> isspace (hd s)" "\<not> isspace (last s)"
  shows "strip (s @ replicate n 32) = s"
proof -
  have sp: "isspace 32" by (simp add: isspace_def)
  from assms(1,2) have a: "dropWhile isspace (s @ replicate n 32) = s @ replicate n 32"
    by (cases s) auto
  have b: "dropWhile isspace (replicate n 32 @ rev s) = rev s"
  proof -
    have "dropWhile isspace (replicate n 32 @ rev s) = dropWhile isspace (rev s)"
      using sp by (simp add: dropWhile_append)
    also have "\<dots> = rev s" using assms(1,3) by (cases "rev s") (auto simp: hd_rev)
    finally show ?thesis .
  qed
  show ?thesis by (simp add: strip_def a b)
qed

lemma strip_Arsenal: "strip (lit ''Arsenal'') = lit ''Arsenal''"
  by (simp add: strip_def lit_def isspace_def)

lemma match_Arsenal: "team_name_match (lit ''Arsenal'')"
  by (simp add: team_name_match_def team_name_char_def lit_def)

subsection \<open>The paths of \<open>search_teams\<close>\<close>

lemma search_teams_of_try_Inr:
  "search_teams_try g tn = (calls, Inr r) \<Longrightarrow> search_teams g tn = (calls, Inr r)"
  by (simp add: search_teams_def)

lemma search_teams_try_valid:
  assumes "team_name_match (strip s)" "length (strip s) \<le> 50"
  shows "search_teams_try g (PStr s) =
     ([team_request (strip s)],
      (case g (team_request (strip s)) of
         Inl e \<Rightarrow> Inl e
       | Inr response \<Rightarrow> handle_response (strip s) response))"
proof -
  from assms(1) have "s \<noteq> []" by (auto simp: team_name_match_def strip_def)
  with assms show ?thesis by (simp add: search_teams_try_def)
qed

lemma search_teams_valid:
  assumes "team_name_match (strip s)" "length (strip s) \<le> 50"
  shows "search_teams g (PStr s) =
     ([team_request (strip s)],
      (case g (team_request (strip s)) of
         Inl e \<Rightarrow>
           if isinstance e Timeout then Inr (timeout_result (PStr s))
           else if isinstance e RequestException then Inr (network_error_result (PStr s) e)
           else Inr (technical_error_result (PStr s) e)
       | Inr response \<Rightarrow>
           (case handle_response (strip s) response of
              Inl e \<Rightarrow>
                if isinstance e Timeout then Inr (timeout_result (PStr s))
                else if isinstance e RequestException then Inr (network_error_result (PStr s) e)
                else Inr (technical_error_result (PStr s) e)
            | Inr r \<Rightarrow> Inr r)))"
  by (simp add: search_teams_def search_teams_try_valid [OF assms] split: sum.splits)

text \<open>A request is issued only for a string that has passed the three validation steps.\<close>

lemma call_only_after_validation:
  assumes "req \<in> set (fst (search_teams g tn))"
  shows "\<exists>s. tn = PStr s \<and> team_name_match (strip s) \<and> length (strip s) \<le> 50 \<and>
             req = team_request (strip s)"
proof -
  have fst_eq: "fst (search_teams g tn) = fst (search_teams_try g tn)"
    by (simp add: search_teams_def split: prod.splits sum.splits)
  show ?thesis
  proof (cases tn)
    case (PStr s)
    with assms fst_eq show ?thesis
      by (auto simp: search_teams_try_def split: if_splits)
  qed (use assms fst_eq in \<open>auto simp: search_teams_try_def\<close>)
qed

text \<open>
  The \<open>try\<close> block raises only after the \<open>isinstance\<close> check has passed, so the handlers
  format a string.
\<close>

lemma raises_only_for_str:
  assumes "search_teams_try g tn = (calls, Inl e)"
  shows "is_str tn"
  using assms by (cases tn) (auto simp: search_teams_try_def split: if_splits)

lemma Arsenal_request:
  "fst (search_teams g (PStr (lit ''Arsenal''))) = [team_request (lit ''Arsenal'')]"
  using search_teams_valid [of "lit ''Arsenal''" g] match_Arsenal
  by (simp add: strip_Arsenal)

lemma handle_response_no_teams:
  assumes "raise_for_status response = None" "json response = Inr (PDict d)"
    and "map_of d (lit ''teams'') = None \<or> map_of d (lit ''teams'') = Some PNone \<or>
         map_of d (lit ''teams'') = Some (PList [])"
  shows "handle_response c response = Inr (no_teams_result c)"
  using assms by (auto simp: handle_response_def dict_get_def)

lemma process_teams_skips:
  "\<forall>x \<in> set xs. \<not> is_dict x \<Longrightarrow> process_teams xs acc = Inr acc"
proof (induction xs arbitrary: acc)
  case Nil
  show ?case by simp
next
  case (Cons x xs)
  then have "\<not> is_dict x" by simp
  then have "process_teams (x # xs) acc = process_teams xs acc"
    by (cases x) simp_all
  with Cons show ?case by simp
qed

lemma handle_response_no_dicts:
  assumes "raise_for_status response = None" "json response = Inr (PDict d)"
    and "map_of d (lit ''teams'') = Some (PList xs)" "\<forall>x \<in> set xs. \<not> is_dict x"
  shows "handle_response c response =
     Inr (if xs = [] \<or> xs = [PNone] then no_teams_result c else found_result c response [])"
  using assms by (simp add: handle_response_def dict_get_def process_teams_skips)

subsection \<open>The description entry\<close>

lemma description_of_str:
  assumes "map_of team (lit ''strDescriptionEN'') = Some (PStr d)"
  shows "description team = Inr (PStr (if length d > 200 then take 200 d @ lit ''...'' else d))"
  using assms by (cases "d = []") (simp_all add: description_def dict_get_def)

lemma description_of_absent:
  assumes "map_of team (lit ''strDescriptionEN'') = None"
  shows "description team = Inr (PStr [])"
  using assms by (simp add: description_def dict_get_def)

lemma description_of_null:
  assumes "map_of team (lit ''strDescriptionEN'') = Some PNone"
  shows "description team = Inr PNone"
  using assms by (simp add: description_def dict_get_def)

lemma process_teams_step:
  assumes "team \<noteq> []" "process_team team = Inr p"
  shows "process_teams (PDict team # rest) acc = process_teams rest (acc @ [PDict p])"
  using assms by simp

section \<open>Team search: validation\<close>

text \<open>
  Claim C1, as amended. For every input string that contains a character outside the
  allow-list, or whose form after stripping surrounding whitespace is longer than 50
  characters, \<open>search_teams\<close> issues no request and returns a dictionary with
  \<open>success = False\<close>, \<open>validation_failed = True\<close> and a non-empty error message. (The length
  bound applies to the stripped name, not to the input as given.)
\<close>

theorem search_teams_rejects_invalid_name:
  assumes "(\<exists>c \<in> set s. \<not> team_name_char c) \<or> length (strip s) > 50"
  shows "\<exists>r msg. search_teams requests_get (PStr s) = ([], Inr r)
      \<and> map_of r (lit ''success'') = Some (PBool False)
      \<and> map_of r (lit ''validation_failed'') = Some (PBool True)
      \<and> map_of r (lit ''error'') = Some (PStr msg) \<and> msg \<noteq> []"
proof -
  have bad: "\<not> team_name_match (strip s) \<or> length (strip s) > 50"
    using assms bad_char_survives_strip by blast
  have "search_teams_try requests_get (PStr s) = ([], Inr (invalid_input_result (PStr s)))
      \<or> search_teams_try requests_get (PStr s) = ([], Inr (invalid_format_result (PStr s)))
      \<or> search_teams_try requests_get (PStr s) = ([], Inr (too_long_result (PStr s)))"
    using bad by (auto simp: search_teams_try_def)
  then show ?thesis
    by (auto dest!: search_teams_of_try_Inr [where g = requests_get]
          simp: invalid_input_result_def invalid_format_result_def too_long_result_def)
qed

text \<open>The theorem at the name \<open>Real Madrid!\<close>, whose last character is not allowed.\<close>

theorem search_teams_rejects_invalid_name_witness:
  "(\<exists>c \<in> set (lit ''Real Madrid!''). \<not> team_name_char c)
   \<and> (\<exists>r msg. search_teams null_teams_api (PStr (lit ''Real Madrid!'')) = ([], Inr r)
      \<and> map_of r (lit ''success'') = Some (PBool False)
      \<and> map_of r (lit ''validation_failed'') = Some (PBool True)
      \<and> map_of r (lit ''error'') = Some (PStr msg) \<and> msg \<noteq> [])"
proof -
  have bad: "\<exists>c \<in> set (lit ''Real Madrid!''). \<not> team_name_char c"
    by (simp add: lit_def team_name_char_def isspace_def)
  then show ?thesis
    using search_teams_rejects_invalid_name [of "lit ''Real Madrid!''" null_teams_api] by blast
qed

text \<open>
  Claim C1 as stated fails: the input \<open>Arsenal\<close> followed by 50 spaces has 57 characters,
  more than the bound of 50, yet it is stripped to \<open>Arsenal\<close>, one request is issued for
  it, and the result is a success.
\<close>

theorem padded_name_is_searched:
  "length (lit ''Arsenal'' @ replicate 50 32) > 50 \<and>
   search_teams null_teams_api (PStr (lit ''Arsenal'' @ replicate 50 32)) =
     ([team_request (lit ''Arsenal'')], Inr (no_teams_result (lit ''Arsenal''))) \<and>
   map_of (no_teams_result (lit ''Arsenal'')) (lit ''success'') = Some (PBool True)"
proof -
  have st: "strip (lit ''Arsenal'' @ replicate 50 32) = lit ''Arsenal''"
    by (rule strip_padded) (simp_all add: lit_def isspace_def)
  have "search_teams_try null_teams_api (PStr (lit ''Arsenal'' @ replicate 50 32)) =
     ([team_request (lit ''Arsenal'')], Inr (no_teams_result (lit ''Arsenal'')))"
    using search_teams_try_valid [of "lit ''Arsenal'' @ replicate 50 32" null_teams_api]
      match_Arsenal
    by (simp add: st null_teams_api_def handle_response_def dict_get_def)
  then show ?thesis by (simp add: search_teams_of_try_Inr no_teams_result_def)
qed


section \<open>Team search: normalising the records\<close>

text \<open>
  Claim C4. A team record whose description is a string is normalised without an
  exception and enters the list of processed teams; when the description is longer than
  200 characters the normalised description is its first 200 characters followed by
  \<open>...\<close>, and when it has 200 characters or fewer it is the description unchanged.
\<close>

theorem description_truncated_to_200:
  assumes "map_of team (lit ''strDescriptionEN'') = Some (PStr d)"
  shows "\<exists>p. process_team team = Inr p
     \<and> process_teams (PDict team # rest) acc = process_teams rest (acc @ [PDict p])
     \<and> (length d > 200 \<longrightarrow>
          map_of p (lit ''description'') = Some (PStr (take 200 d @ lit ''...'')))
     \<and> (length d \<le> 200 \<longrightarrow> map_of p (lit ''description'') = Some (PStr d))"
proof -
  from assms have ne: "team \<noteq> []" by auto
  obtain p where p: "process_team team = Inr p"
    and desc: "map_of p (lit ''description'') =
               Some (PStr (if length d > 200 then take 200 d @ lit ''...'' else d))"
    by (simp add: process_team_def description_of_str [OF assms])
  from process_teams_step [OF ne p] p desc show ?thesis by auto
qed

text \<open>The theorem at a record whose description has 201 characters.\<close>

theorem description_truncated_to_200_witness:
  "map_of long_description_team (lit ''strDescriptionEN'') =
     Some (PStr (replicate 201 (of_char CHR ''x'')))
   \<and> (\<exists>p. process_teams [PDict long_description_team] [] = Inr [PDict p]
        \<and> map_of p (lit ''description'') =
            Some (PStr (replicate 200 (of_char CHR ''x'') @ lit ''...'')))"
proof -
  have a: "map_of long_description_team (lit ''strDescriptionEN'') =
     Some (PStr (replicate 201 (of_char CHR ''x'')))"
    by (simp add: long_description_team_def)
  from description_truncated_to_200 [OF a, of "[]" "[]"] a show ?thesis by auto
qed

text \<open>
  Claim C5. A well-formed team record (a non-empty dictionary whose description is absent,
  null or a string) is normalised without an exception and enters the list of processed
  teams, and every field whose key is absent from the record gets its default: \<open>None\<close> for
  the identifier, \<open>Unknown\<close> for the team name and the country, \<open>Unknown League\<close>,
  \<open>Unknown Sport\<close>, \<open>Unknown Venue\<close>, \<open>Unknown Location\<close>, and the empty string for the
  alternate name, the year, the description, the website, the logo and the jersey.
\<close>

theorem missing_fields_get_defaults:
  assumes "team \<noteq> []"
    and "map_of team (lit ''strDescriptionEN'') = None \<or>
         map_of team (lit ''strDescriptionEN'') = Some PNone \<or>
         (\<exists>d. map_of team (lit ''strDescriptionEN'') = Some (PStr d))"
  shows "\<exists>p. process_team team = Inr p
     \<and> process_teams (PDict team # rest) acc = process_teams rest (acc @ [PDict p])
     \<and> (map_of team (lit ''idTeam'') = None \<longrightarrow> map_of p (lit ''team_id'') = Some PNone)
     \<and> (map_of team (lit ''strTeam'') = None \<longrightarrow>
          map_of p (lit ''team_name'') = Some (PStr (lit ''Unknown'')))
     \<and> (map_of team (lit ''strAlternate'') = None \<longrightarrow>
          map_of p (lit ''alternate_name'') = Some (PStr []))
     \<and> (map_of team (lit ''strLeague'') = None \<longrightarrow>
          map_of p (lit ''league'') = Some (PStr (lit ''Unknown League'')))
     \<and> (map_of team (lit ''strSport'') = None \<longrightarrow>
          map_of p (lit ''sport'') = Some (PStr (lit ''Unknown Sport'')))
     \<and> (map_of team (lit ''intFormedYear'') = None \<longrightarrow>
          map_of p (lit ''founded'') = Some (PStr []))
     \<and> (map_of team (lit ''strStadium'') = None \<longrightarrow>
          map_of p (lit ''venue'') = Some (PStr (lit ''Unknown Venue'')))
     \<and> (map_of team (lit ''strLocation'') = None \<longrightarrow>
          map_of p (lit ''location'') = Some (PStr (lit ''Unknown Location'')))
     \<and> (map_of team (lit ''strDescriptionEN'') = None \<longrightarrow>
          map_of p (lit ''description'') = Some (PStr []))
     \<and> (map_of team (lit ''strWebsite'') = None \<longrightarrow>
          map_of p (lit ''website'') = Some (PStr []))
     \<and> (map_of team (lit ''strTeamBadge'') = None \<longrightarrow>
          map_of p (lit ''logo'') = Some (PStr []))
     \<and> (map_of team (lit ''strTeamJersey'') = None \<longrightarrow>
          map_of p (lit ''jersey'') = Some (PStr []))
     \<and> (map_of team (lit ''strCountry'') = None \<longrightarrow>
          map_of p (lit ''country'') = Some (PStr (lit ''Unknown'')))"
proof -
  from assms(2) obtain v where v: "description team = Inr v"
    and absent: "map_of team (lit ''strDescriptionEN'') = None \<Longrightarrow> v = PStr []"
    using description_of_absent description_of_null description_of_str by fastforce
  let ?p = "[(lit ''team_id'', dict_get team (lit ''idTeam'') PNone),
           (lit ''team_name'', dict_get team (lit ''strTeam'') (PStr (lit ''Unknown''))),
           (lit ''alternate_name'', dict_get team (lit ''strAlternate'') (PStr [])),
           (lit ''league'', dict_get team (lit ''strLeague'') (PStr (lit ''Unknown League''))),
           (lit ''sport'', dict_get team (lit ''strSport'') (PStr (lit ''Unknown Sport''))),
           (lit ''founded'', dict_get team (lit ''intFormedYear'') (PStr [])),
           (lit ''venue'', dict_get team (lit ''strStadium'') (PStr (lit ''Unknown Venue''))),
           (lit ''location'', dict_get team (lit ''strLocation'') (PStr (lit ''Unknown Location''))),
           (lit ''description'', v),
           (lit ''website'', dict_get team (lit ''strWebsite'') (PStr [])),
           (lit ''logo'', dict_get team (lit ''strTeamBadge'') (PStr [])),
           (lit ''jersey'', dict_get team (lit ''strTeamJersey'') (PStr [])),
           (lit ''country'', dict_get team (lit ''strCountry'') (PStr (lit ''Unknown'')))]"
  have p: "process_team team = Inr ?p" by (simp add: process_team_def v)
  have step: "process_teams (PDict team # rest) acc = process_teams rest (acc @ [PDict ?p])"
    by (rule process_teams_step [OF assms(1) p])
  show ?thesis
  proof (intro exI [of _ ?p] conjI impI)
    show "process_team team = Inr ?p" by (rule p)
    show "process_teams (PDict team # rest) acc = process_teams rest (acc @ [PDict ?p])"
      by (rule step)
  qed (simp_all add: dict_get_def absent)
qed

text \<open>The theorem at a record that has a team name and nothing else.\<close>

theorem missing_fields_get_defaults_witness:
  "name_only_team \<noteq> []
   \<and> map_of name_only_team (lit ''strDescriptionEN'') = None
   \<and> map_of name_only_team (lit ''strLeague'') = None
   \<and> map_of name_only_team (lit ''strStadium'') = None
   \<and> (\<exists>p. process_teams [PDict name_only_team] [] = Inr [PDict p]
        \<and> map_of p (lit ''league'') = Some (PStr (lit ''Unknown League''))
        \<and> map_of p (lit ''venue'') = Some (PStr (lit ''Unknown Venue''))
        \<and> map_of p (lit ''description'') = Some (PStr []))"
proof -
  have a: "name_only_team \<noteq> []" by (simp add: name_only_team_def)
  have b: "map_of name_only_team (lit ''strDescriptionEN'') = None"
    "map_of name_only_team (lit ''strLeague'') = None"
    "map_of name_only_team (lit ''strStadium'') = None"
    by (simp_all add: name_only_team_def)
  have c: "map_of name_only_team (lit ''strDescriptionEN'') = None \<or>
         map_of name_only_team (lit ''strDescriptionEN'') = Some PNone \<or>
         (\<exists>d. map_of name_only_team (lit ''strDescriptionEN'') = Some (PStr d))"
    using b(1) by simp
  have "\<exists>p. process_teams [PDict name_only_team] [] = Inr [PDict p]
        \<and> map_of p (lit ''league'') = Some (PStr (lit ''Unknown League''))
        \<and> map_of p (lit ''venue'') = Some (PStr (lit ''Unknown Venue''))
        \<and> map_of p (lit ''description'') = Some (PStr [])"
    using missing_fields_get_defaults [OF a c, of "[]" "[]"]
    by (elim exE conjE) (simp add: b)
  with a b show ?thesis by simp
qed


section \<open>Team search: the outcomes of the request\<close>

text \<open>
  Claim C6. When the request that \<open>search_teams\<close> issued is answered without an error
  status by a JSON object whose \<open>teams\<close> entry is absent, null or the empty list (the
  search succeeded and matched nothing), the function returns \<open>success = True\<close> with an
  empty \<open>teams\<close> list, \<open>count = 0\<close> and a non-empty message.
\<close>

theorem empty_result_set_is_success:
  assumes "req \<in> set (fst (search_teams requests_get team_name))"
    and "requests_get req = Inr response"
    and "raise_for_status response = None"
    and "json response = Inr (PDict d)"
    and "map_of d (lit ''teams'') = None \<or> map_of d (lit ''teams'') = Some PNone \<or>
         map_of d (lit ''teams'') = Some (PList [])"
  shows "\<exists>r m. snd (search_teams requests_get team_name) = Inr r
     \<and> map_of r (lit ''success'') = Some (PBool True)
     \<and> map_of r (lit ''teams'') = Some (PList [])
     \<and> map_of r (lit ''count'') = Some (PInt 0)
     \<and> map_of r (lit ''error'') = None
     \<and> map_of r (lit ''message'') = Some (PStr m) \<and> m \<noteq> []"
proof -
  from call_only_after_validation [OF assms(1)] obtain s where
    s: "team_name = PStr s" "team_name_match (strip s)" "length (strip s) \<le> 50"
       "req = team_request (strip s)" by blast
  have "handle_response (strip s) response = Inr (no_teams_result (strip s))"
    using assms(3,4,5) by (rule handle_response_no_teams)
  then have "snd (search_teams requests_get team_name) = Inr (no_teams_result (strip s))"
    using assms(2) s by (simp add: search_teams_valid)
  then show ?thesis by (simp add: no_teams_result_def)
qed

text \<open>The theorem at the name \<open>Arsenal\<close> and a service that answers \<open>{"teams": null}\<close>.\<close>

theorem empty_result_set_is_success_witness:
  "team_request (lit ''Arsenal'') \<in> set (fst (search_teams null_teams_api (PStr (lit ''Arsenal''))))
   \<and> (\<exists>r m. snd (search_teams null_teams_api (PStr (lit ''Arsenal''))) = Inr r
     \<and> map_of r (lit ''success'') = Some (PBool True)
     \<and> map_of r (lit ''teams'') = Some (PList [])
     \<and> map_of r (lit ''count'') = Some (PInt 0)
     \<and> map_of r (lit ''error'') = None
     \<and> map_of r (lit ''message'') = Some (PStr m) \<and> m \<noteq> [])"
proof -
  let ?response = "\<lparr>raise_for_status = None, json = Inr (PDict [(lit ''teams'', PNone)]),
          header_date = None\<rparr>"
  have a: "team_request (lit ''Arsenal'') \<in>
           set (fst (search_teams null_teams_api (PStr (lit ''Arsenal''))))"
    by (simp add: Arsenal_request)
  have b: "null_teams_api (team_request (lit ''Arsenal'')) = Inr ?response"
    by (simp add: null_teams_api_def)
  have c: "raise_for_status ?response = None" by simp
  have d: "json ?response = Inr (PDict [(lit ''teams'', PNone)])" by simp
  have e: "map_of [(lit ''teams'', PNone)] (lit ''teams'') = None \<or>
           map_of [(lit ''teams'', PNone)] (lit ''teams'') = Some PNone \<or>
           map_of [(lit ''teams'', PNone)] (lit ''teams'') = Some (PList [])" by simp
  from empty_result_set_is_success [OF a b c d e] a show ?thesis by (rule conjI [rotated])
qed

text \<open>
  Claim C7. When the request that \<open>search_teams\<close> issued ends in a \<open>Timeout\<close> exception,
  the function returns (it does not raise) the timeout dictionary, which has
  \<open>success = False\<close> and \<open>timeout_error = True\<close>.
\<close>

theorem timeout_gives_timeout_error:
  assumes "req \<in> set (fst (search_teams requests_get team_name))"
    and "requests_get req = Inl e" and "isinstance e Timeout"
  shows "snd (search_teams requests_get team_name) = Inr (timeout_result team_name)
     \<and> map_of (timeout_result team_name) (lit ''success'') = Some (PBool False)
     \<and> map_of (timeout_result team_name) (lit ''timeout_error'') = Some (PBool True)"
proof -
  from call_only_after_validation [OF assms(1)] obtain s where
    s: "team_name = PStr s" "team_name_match (strip s)" "length (strip s) \<le> 50"
       "req = team_request (strip s)" by blast
  have "snd (search_teams requests_get team_name) = Inr (timeout_result team_name)"
    using assms(2,3) s by (simp add: search_teams_valid)
  then show ?thesis by (simp add: timeout_result_def)
qed

text \<open>The theorem at the name \<open>Arsenal\<close> and a service that never answers in time.\<close>

theorem timeout_gives_timeout_error_witness:
  "team_request (lit ''Arsenal'') \<in> set (fst (search_teams timeout_api (PStr (lit ''Arsenal''))))
   \<and> isinstance (Exn Timeout (lit ''Read timed out.'')) Timeout
   \<and> snd (search_teams timeout_api (PStr (lit ''Arsenal''))) =
       Inr (timeout_result (PStr (lit ''Arsenal'')))
   \<and> map_of (timeout_result (PStr (lit ''Arsenal''))) (lit ''success'') = Some (PBool False)"
proof -
  have a: "team_request (lit ''Arsenal'') \<in>
           set (fst (search_teams timeout_api (PStr (lit ''Arsenal''))))"
    by (simp add: Arsenal_request)
  have b: "timeout_api (team_request (lit ''Arsenal'')) = Inl (Exn Timeout (lit ''Read timed out.''))"
    by (simp add: timeout_api_def)
  have c: "isinstance (Exn Timeout (lit ''Read timed out.'')) Timeout"
    by (simp add: isinstance_def)
  from timeout_gives_timeout_error [OF a b c] a c show ?thesis by simp
qed

text \<open>
  Claim C10. When the request is answered by a JSON object whose \<open>teams\<close> entry is a list
  with no dictionary among its elements (nulls, numbers, strings, lists), \<open>search_teams\<close>
  does not fail and derives no record from these elements: it returns \<open>success = True\<close>
  with an empty \<open>teams\<close> list, \<open>count = 0\<close> and no \<open>error\<close> entry. For the one-element list
  \<open>[None]\<close> the result is the very dictionary returned for an absent or empty result set.
\<close>

theorem non_dict_elements_are_skipped:
  assumes "req \<in> set (fst (search_teams requests_get team_name))"
    and "requests_get req = Inr response"
    and "raise_for_status response = None"
    and "json response = Inr (PDict d)"
    and "map_of d (lit ''teams'') = Some (PList xs)"
    and "\<forall>x \<in> set xs. \<not> is_dict x"
  shows "\<exists>r s. snd (search_teams requests_get team_name) = Inr r
     \<and> map_of r (lit ''success'') = Some (PBool True)
     \<and> map_of r (lit ''teams'') = Some (PList [])
     \<and> map_of r (lit ''count'') = Some (PInt 0)
     \<and> map_of r (lit ''error'') = None
     \<and> team_name = PStr s
     \<and> (xs = [PNone] \<longrightarrow> r = no_teams_result (strip s))"
proof -
  from call_only_after_validation [OF assms(1)] obtain s where
    s: "team_name = PStr s" "team_name_match (strip s)" "length (strip s) \<le> 50"
       "req = team_request (strip s)" by blast
  let ?r = "if xs = [] \<or> xs = [PNone] then no_teams_result (strip s)
            else found_result (strip s) response []"
  have "handle_response (strip s) response = Inr ?r"
    using assms(3-6) by (rule handle_response_no_dicts)
  then have "snd (search_teams requests_get team_name) = Inr ?r"
    using assms(2) s by (simp add: search_teams_valid)
  moreover have "map_of ?r (lit ''success'') = Some (PBool True)"
    "map_of ?r (lit ''teams'') = Some (PList [])"
    "map_of ?r (lit ''count'') = Some (PInt 0)"
    "map_of ?r (lit ''error'') = None"
    by (simp_all add: no_teams_result_def found_result_def)
  ultimately show ?thesis using s(1) by auto
qed

text \<open>The theorem at a service that answers \<open>{"teams": [null, 7]}\<close>.\<close>

theorem non_dict_elements_are_skipped_witness:
  "team_request (lit ''Arsenal'') \<in> set (fst (search_teams null_list_api (PStr (lit ''Arsenal''))))
   \<and> \<not> is_dict PNone \<and> \<not> is_dict (PInt 7)
   \<and> (\<exists>r. snd (search_teams null_list_api (PStr (lit ''Arsenal''))) = Inr r
     \<and> map_of r (lit ''success'') = Some (PBool True)
     \<and> map_of r (lit ''teams'') = Some (PList [])
     \<and> map_of r (lit ''count'') = Some (PInt 0)
     \<and> map_of r (lit ''error'') = None)"
proof -
  let ?response = "\<lparr>raise_for_status = None,
          json = Inr (PDict [(lit ''teams'', PList [PNone, PInt 7])]),
          header_date = Some (lit ''Thu, 05 Nov 2026 10:00:00 GMT'')\<rparr>"
  have a: "team_request (lit ''Arsenal'') \<in>
           set (fst (search_teams null_list_api (PStr (lit ''Arsenal''))))"
    by (simp add: Arsenal_request)
  have b: "null_list_api (team_request (lit ''Arsenal'')) = Inr ?response"
    by (simp add: null_list_api_def)
  have c: "raise_for_status ?response = None" by simp
  have d: "json ?response = Inr (PDict [(lit ''teams'', PList [PNone, PInt 7])])" by simp
  have e: "map_of [(lit ''teams'', PList [PNone, PInt 7])] (lit ''teams'') =
           Some (PList [PNone, PInt 7])" by simp
  have f: "\<forall>x \<in> set [PNone, PInt 7]. \<not> is_dict x" by simp
  from non_dict_elements_are_skipped [OF a b c d e f] a show ?thesis by auto
qed


section \<open>The shape of the results\<close>

lemma handle_response_results:
  assumes "handle_response c response = Inr r"
  shows "r = api_error_result c \<or> r = no_teams_result c \<or>
         (\<exists>ps. r = found_result c response ps)"
proof (cases "json response")
  case (Inl e)
  with assms show ?thesis by (simp add: handle_response_def split: option.splits)
next
  case (Inr data)
  show ?thesis
  proof (cases data)
    case (PDict d)
    with assms Inr show ?thesis
      by (auto simp: handle_response_def Let_def split: option.splits if_splits sum.splits)
  qed (use assms Inr in \<open>auto simp: handle_response_def split: option.splits\<close>)
qed

lemma search_teams_try_results:
  assumes "search_teams_try g tn = (calls, Inr r)"
  shows "r = invalid_input_result tn \<or> r = invalid_format_result tn \<or>
      r = too_long_result tn \<or> (\<exists>c. r = api_error_result c) \<or>
      (\<exists>c. r = no_teams_result c) \<or> (\<exists>c response ps. r = found_result c response ps)"
proof (cases "\<not> truthy tn \<or> \<not> is_str tn")
  case True
  with assms show ?thesis by (auto simp: search_teams_try_def)
next
  case False
  then obtain s where tn: "tn = PStr s" by (cases tn) auto
  show ?thesis
  proof (cases "team_name_match (strip s) \<and> length (strip s) \<le> 50")
    case True
    then have "search_teams_try g tn =
      ([team_request (strip s)],
       (case g (team_request (strip s)) of
          Inl e \<Rightarrow> Inl e
        | Inr response \<Rightarrow> handle_response (strip s) response))"
      using search_teams_try_valid [of s g] tn by simp
    with assms obtain response where "handle_response (strip s) response = Inr r"
      by (auto split: sum.splits)
    from handle_response_results [OF this] show ?thesis by blast
  next
    case False
    with assms tn \<open>\<not> (\<not> truthy tn \<or> \<not> is_str tn)\<close> show ?thesis
      by (auto simp: search_teams_try_def split: if_splits)
  qed
qed

lemma search_teams_try_envelope:
  assumes "search_teams_try g tn = (calls, Inr r)"
  shows "(map_of r (lit ''success'') = Some (PBool True)
          \<and> (\<exists>ts. map_of r (lit ''teams'') = Some (PList ts))
          \<and> map_of r (lit ''error'') = None)
       \<or> (map_of r (lit ''success'') = Some (PBool False)
          \<and> (\<exists>m. map_of r (lit ''error'') = Some (PStr m) \<and> m \<noteq> [])
          \<and> map_of r (lit ''teams'') = None)"
  using search_teams_try_results [OF assms]
  by (elim disjE exE)
     (simp_all add: invalid_input_result_def invalid_format_result_def too_long_result_def
          api_error_result_def no_teams_result_def found_result_def)

lemma handler_envelope:
  "map_of (timeout_result tn) (lit ''success'') = Some (PBool False)
   \<and> (\<exists>m. map_of (timeout_result tn) (lit ''error'') = Some (PStr m) \<and> m \<noteq> [])
   \<and> map_of (timeout_result tn) (lit ''teams'') = None"
  "map_of (network_error_result tn e) (lit ''success'') = Some (PBool False)
   \<and> (\<exists>m. map_of (network_error_result tn e) (lit ''error'') = Some (PStr m) \<and> m \<noteq> [])
   \<and> map_of (network_error_result tn e) (lit ''teams'') = None"
  "map_of (technical_error_result tn e) (lit ''success'') = Some (PBool False)
   \<and> (\<exists>m. map_of (technical_error_result tn e) (lit ''error'') = Some (PStr m) \<and> m \<noteq> [])
   \<and> map_of (technical_error_result tn e) (lit ''teams'') = None"
  by (simp_all add: timeout_result_def network_error_result_def technical_error_result_def)

lemma search_teams_cases:
  "(\<exists>calls r. search_teams_try g tn = (calls, Inr r) \<and> search_teams g tn = (calls, Inr r))
   \<or> (\<exists>calls e. search_teams_try g tn = (calls, Inl e) \<and>
        (search_teams g tn = (calls, Inr (timeout_result tn)) \<or>
         search_teams g tn = (calls, Inr (network_error_result tn e)) \<or>
         search_teams g tn = (calls, Inr (technical_error_result tn e))))"
proof (cases "search_teams_try g tn")
  case (Pair calls out)
  then show ?thesis by (cases out) (simp_all add: search_teams_def)
qed

lemma stock_result_shape:
  assumes "stock_result i pd t = Inr q"
  shows "map_of q (lit ''success'') = None \<and> map_of q (lit ''validation_failed'') = None
       \<and> (\<exists>p. map_of q (lit ''current_price'') = Some (PFloat p))
       \<and> map_of q (lit ''error'') = None"
  using assms
  by (auto simp: stock_result_def last_value_def split: sum.splits option.splits if_splits)

lemma stock_error_result_shape:
  "map_of (stock_error_result t e) (lit ''success'') = None
   \<and> map_of (stock_error_result t e) (lit ''validation_failed'') = None
   \<and> map_of (stock_error_result t e) (lit ''current_price'') = None
   \<and> (\<exists>m. map_of (stock_error_result t e) (lit ''error'') = Some (PStr m) \<and> m \<noteq> [])"
  by (simp add: stock_error_result_def)

lemma get_stock_price_cases:
  "(\<exists>calls i pd q. get_stock_price_try yf t = (Ticker t # calls, Inr q) \<and>
       stock_result i pd t = Inr q \<and> get_stock_price yf t = (Ticker t # calls, Inr q))
   \<or> (\<exists>calls e. get_stock_price_try yf t = (Ticker t # calls, Inl e) \<and>
       get_stock_price yf t = (Ticker t # calls, Inr (stock_error_result t e)))"
  by (auto simp: get_stock_price_def get_stock_price_try_def split: sum.splits)

text \<open>
  Claim C3, as amended. Every value returned by \<open>search_teams\<close> has a boolean \<open>success\<close>
  entry; with \<open>success = True\<close> it has the payload (the \<open>teams\<close> list) and no \<open>error\<close>
  entry, with \<open>success = False\<close> it has a non-empty \<open>error\<close> text and no \<open>teams\<close> entry.
  A value returned by \<open>get_stock_price\<close> has no \<open>success\<close> entry: it has either the
  payload (with \<open>current_price\<close>) and no \<open>error\<close> entry, or a non-empty \<open>error\<close> text and
  no payload.
\<close>

theorem result_envelopes:
  "(search_teams requests_get team_name = (calls, Inr r) \<longrightarrow>
      (map_of r (lit ''success'') = Some (PBool True)
         \<and> (\<exists>ts. map_of r (lit ''teams'') = Some (PList ts))
         \<and> map_of r (lit ''error'') = None)
      \<or> (map_of r (lit ''success'') = Some (PBool False)
         \<and> (\<exists>m. map_of r (lit ''error'') = Some (PStr m) \<and> m \<noteq> [])
         \<and> map_of r (lit ''teams'') = None))
   \<and> (get_stock_price yf ticker = (ycalls, Inr q) \<longrightarrow>
      map_of q (lit ''success'') = None
      \<and> (((\<exists>p. map_of q (lit ''current_price'') = Some (PFloat p))
            \<and> map_of q (lit ''error'') = None)
         \<or> ((\<exists>m. map_of q (lit ''error'') = Some (PStr m) \<and> m \<noteq> [])
            \<and> map_of q (lit ''current_price'') = None)))"
proof (rule conjI; rule impI)
  assume ret: "search_teams requests_get team_name = (calls, Inr r)"
  from search_teams_cases [of requests_get team_name]
  show "(map_of r (lit ''success'') = Some (PBool True)
         \<and> (\<exists>ts. map_of r (lit ''teams'') = Some (PList ts))
         \<and> map_of r (lit ''error'') = None)
      \<or> (map_of r (lit ''success'') = Some (PBool False)
         \<and> (\<exists>m. map_of r (lit ''error'') = Some (PStr m) \<and> m \<noteq> [])
         \<and> map_of r (lit ''teams'') = None)"
  proof (elim disjE exE conjE)
    fix c r' assume "search_teams_try requests_get team_name = (c, Inr r')"
      and "search_teams requests_get team_name = (c, Inr r')"
    with ret search_teams_try_envelope [of requests_get team_name c r'] show ?thesis by simp
  qed (use ret handler_envelope in auto)
next
  assume ret: "get_stock_price yf ticker = (ycalls, Inr q)"
  from get_stock_price_cases [of yf ticker]
  show "map_of q (lit ''success'') = None
      \<and> (((\<exists>p. map_of q (lit ''current_price'') = Some (PFloat p))
            \<and> map_of q (lit ''error'') = None)
         \<or> ((\<exists>m. map_of q (lit ''error'') = Some (PStr m) \<and> m \<noteq> [])
            \<and> map_of q (lit ''current_price'') = None))"
  proof (elim disjE exE conjE)
    fix c i pd q' assume "stock_result i pd ticker = Inr q'"
      and "get_stock_price yf ticker = (Ticker ticker # c, Inr q')"
    with ret stock_result_shape [of i pd ticker q'] show ?thesis by simp
  next
    fix c e assume "get_stock_price yf ticker = (Ticker ticker # c, Inr (stock_error_result ticker e))"
    with ret stock_error_result_shape [of ticker e] show ?thesis by simp
  qed
qed

lemma sample_yf_run:
  "get_stock_price sample_yf (PStr (lit ''AAPL'')) =
     ([Ticker (PStr (lit ''AAPL'')), Info, History], Inr sample_stock_result)"
  by (simp add: get_stock_price_def get_stock_price_try_def sample_yf_def stock_result_def
        last_value_def dict_get_def sample_stock_result_def)

lemma Arsenal_no_teams_run:
  "search_teams null_teams_api (PStr (lit ''Arsenal'')) =
     ([team_request (lit ''Arsenal'')], Inr (no_teams_result (lit ''Arsenal'')))"
  using search_teams_valid [of "lit ''Arsenal''" null_teams_api] match_Arsenal
  by (simp add: strip_Arsenal null_teams_api_def handle_response_def dict_get_def)

text \<open>
  The theorem at a search for \<open>Arsenal\<close> that finds nothing and at a price lookup for
  \<open>AAPL\<close>.
\<close>

theorem result_envelopes_witness:
  "search_teams null_teams_api (PStr (lit ''Arsenal'')) =
     ([team_request (lit ''Arsenal'')], Inr (no_teams_result (lit ''Arsenal'')))
   \<and> get_stock_price sample_yf (PStr (lit ''AAPL'')) =
     ([Ticker (PStr (lit ''AAPL'')), Info, History], Inr sample_stock_result)
   \<and> map_of (no_teams_result (lit ''Arsenal'')) (lit ''success'') = Some (PBool True)
   \<and> map_of (no_teams_result (lit ''Arsenal'')) (lit ''error'') = None
   \<and> map_of sample_stock_result (lit ''success'') = None
   \<and> map_of sample_stock_result (lit ''error'') = None"
proof -
  note a = Arsenal_no_teams_run and b = sample_yf_run
  have c: "map_of (no_teams_result (lit ''Arsenal'')) (lit ''success'') \<noteq> Some (PBool False)"
    by (simp add: no_teams_result_def)
  have d: "map_of sample_stock_result (lit ''current_price'') \<noteq> None"
    by (simp add: sample_stock_result_def)
  from result_envelopes [of null_teams_api "PStr (lit ''Arsenal'')"
      "[team_request (lit ''Arsenal'')]" "no_teams_result (lit ''Arsenal'')"
      sample_yf "PStr (lit ''AAPL'')" "[Ticker (PStr (lit ''AAPL'')), Info, History]"
      sample_stock_result] a b c d
  show ?thesis by simp
qed

text \<open>
  Claim C3 as stated fails: the value \<open>get_stock_price\<close> returns for a successful lookup
  of \<open>AAPL\<close> has no \<open>success\<close> entry.
\<close>

theorem stock_result_has_no_success_field:
  "get_stock_price sample_yf (PStr (lit ''AAPL'')) =
     ([Ticker (PStr (lit ''AAPL'')), Info, History], Inr sample_stock_result)
   \<and> map_of sample_stock_result (lit ''success'') = None"
  by (simp add: sample_yf_run) (simp add: sample_stock_result_def)


section \<open>Validation before the call\<close>

text \<open>
  Claim C2, as amended. \<open>search_teams\<close> validates its input before any network call: for
  the empty string and for every input that is not a string it issues no request and
  returns the validation result, with \<open>success = False\<close> and \<open>validation_failed = True\<close>.
  \<open>get_stock_price\<close> does not validate: for every ticker, the empty string included, its
  first step is the library call \<open>yf.Ticker(ticker)\<close> with the ticker as given, and the
  value it returns has neither a \<open>success\<close> entry nor a validation marker. (The nationality
  lookup is a declarative API description handed to the agent framework; the repository
  has no code of its own for it.)
\<close>

theorem validation_before_the_call:
  "(team_name = PStr [] \<or> \<not> is_str team_name \<longrightarrow>
      search_teams requests_get team_name = ([], Inr (invalid_input_result team_name))
      \<and> map_of (invalid_input_result team_name) (lit ''success'') = Some (PBool False)
      \<and> map_of (invalid_input_result team_name) (lit ''validation_failed'') = Some (PBool True))
   \<and> (\<exists>calls q. get_stock_price yf ticker = (Ticker ticker # calls, Inr q)
        \<and> map_of q (lit ''success'') = None
        \<and> map_of q (lit ''validation_failed'') = None)"
proof (rule conjI)
  show "team_name = PStr [] \<or> \<not> is_str team_name \<longrightarrow>
      search_teams requests_get team_name = ([], Inr (invalid_input_result team_name))
      \<and> map_of (invalid_input_result team_name) (lit ''success'') = Some (PBool False)
      \<and> map_of (invalid_input_result team_name) (lit ''validation_failed'') = Some (PBool True)"
  proof
    assume "team_name = PStr [] \<or> \<not> is_str team_name"
    then have "\<not> truthy team_name \<or> \<not> is_str team_name" by auto
    then have "search_teams_try requests_get team_name =
        ([], Inr (invalid_input_result team_name))"
      by (simp add: search_teams_try_def)
    then show "search_teams requests_get team_name = ([], Inr (invalid_input_result team_name))
      \<and> map_of (invalid_input_result team_name) (lit ''success'') = Some (PBool False)
      \<and> map_of (invalid_input_result team_name) (lit ''validation_failed'') = Some (PBool True)"
      by (simp add: search_teams_of_try_Inr invalid_input_result_def)
  qed
next
  from get_stock_price_cases [of yf ticker]
  show "\<exists>calls q. get_stock_price yf ticker = (Ticker ticker # calls, Inr q)
        \<and> map_of q (lit ''success'') = None
        \<and> map_of q (lit ''validation_failed'') = None"
  proof (elim disjE exE conjE)
    fix c i pd q assume "stock_result i pd ticker = Inr q"
      and "get_stock_price yf ticker = (Ticker ticker # c, Inr q)"
    with stock_result_shape [of i pd ticker q] show ?thesis by blast
  next
    fix c e
    assume "get_stock_price yf ticker = (Ticker ticker # c, Inr (stock_error_result ticker e))"
    with stock_error_result_shape [of ticker e] show ?thesis by blast
  qed
qed

text \<open>The theorem at the empty team name and the empty ticker.\<close>

theorem validation_before_the_call_witness:
  "search_teams null_teams_api (PStr []) = ([], Inr (invalid_input_result (PStr [])))
   \<and> map_of (invalid_input_result (PStr [])) (lit ''success'') = Some (PBool False)
   \<and> (\<exists>calls q. get_stock_price failing_yf (PStr []) = (Ticker (PStr []) # calls, Inr q)
        \<and> map_of q (lit ''success'') = None)"
  using validation_before_the_call [of "PStr []" null_teams_api failing_yf "PStr []"]
  by auto

text \<open>
  Claim C2 as stated fails at \<open>get_stock_price\<close> on the empty ticker: the library is
  called with the empty string, and what is returned (here, after the library has raised)
  has no \<open>success\<close> entry and no validation marker.
\<close>

theorem empty_ticker_is_not_validated:
  "get_stock_price failing_yf (PStr []) =
     ([Ticker (PStr [])],
      Inr [(lit ''error'',
              PStr (lit ''Failed to retrieve stock information: No data found for this ticker'')),
           (lit ''ticker'', PStr [])])
   \<and> map_of [(lit ''error'',
              PStr (lit ''Failed to retrieve stock information: No data found for this ticker'')),
           (lit ''ticker'', PStr [])] (lit ''success'') = None
   \<and> map_of [(lit ''error'',
              PStr (lit ''Failed to retrieve stock information: No data found for this ticker'')),
           (lit ''ticker'', PStr [])] (lit ''validation_failed'') = None"
  by (simp add: get_stock_price_def get_stock_price_try_def failing_yf_def
        stock_error_result_def lit_def)


section \<open>Exceptions do not leave the adapters\<close>

text \<open>
  Claim C8, as amended. Both adapters are total: every invocation returns a dictionary,
  and an exception that arises in the \<open>try\<close> block is caught at the outermost boundary.
  \<open>search_teams\<close> converts it into a dictionary with \<open>success = False\<close> and an error text;
  \<open>get_stock_price\<close> converts it into the dictionary of the error text and the ticker,
  which has no \<open>success\<close> entry.
\<close>

theorem adapters_never_raise:
  "(\<exists>calls r. search_teams requests_get team_name = (calls, Inr r)
      \<and> (\<forall>e. snd (search_teams_try requests_get team_name) = Inl e \<longrightarrow>
             map_of r (lit ''success'') = Some (PBool False)
             \<and> (\<exists>m. map_of r (lit ''error'') = Some (PStr m) \<and> m \<noteq> [])))
   \<and> (\<exists>calls q. get_stock_price yf ticker = (calls, Inr q)
      \<and> (\<forall>e. snd (get_stock_price_try yf ticker) = Inl e \<longrightarrow>
             q = [(lit ''error'',
                     PStr (lit ''Failed to retrieve stock information: '' @ exn_str e)),
                  (lit ''ticker'', ticker)]))"
proof (rule conjI)
  from search_teams_cases [of requests_get team_name]
  show "\<exists>calls r. search_teams requests_get team_name = (calls, Inr r)
      \<and> (\<forall>e. snd (search_teams_try requests_get team_name) = Inl e \<longrightarrow>
             map_of r (lit ''success'') = Some (PBool False)
             \<and> (\<exists>m. map_of r (lit ''error'') = Some (PStr m) \<and> m \<noteq> []))"
    using handler_envelope by (elim disjE exE conjE) auto
next
  from get_stock_price_cases [of yf ticker]
  show "\<exists>calls q. get_stock_price yf ticker = (calls, Inr q)
      \<and> (\<forall>e. snd (get_stock_price_try yf ticker) = Inl e \<longrightarrow>
             q = [(lit ''error'',
                     PStr (lit ''Failed to retrieve stock information: '' @ exn_str e)),
                  (lit ''ticker'', ticker)])"
    by (elim disjE exE conjE) (auto simp: stock_error_result_def)
qed

lemma empty_history_run:
  "get_stock_price_try empty_history_yf (PStr (lit ''ZZZZ'')) =
     ([Ticker (PStr (lit ''ZZZZ'')), Info, History],
      Inl (Exn IndexError (lit ''single positional indexer is out-of-bounds'')))"
  by (simp add: get_stock_price_try_def empty_history_yf_def stock_result_def
        last_value_def dict_get_def)

text \<open>
  The theorem at a search whose request times out and at a price lookup whose price
  table is empty.
\<close>

theorem adapters_never_raise_witness:
  "snd (search_teams_try timeout_api (PStr (lit ''Arsenal''))) =
     Inl (Exn Timeout (lit ''Read timed out.''))
   \<and> snd (get_stock_price_try empty_history_yf (PStr (lit ''ZZZZ''))) =
     Inl (Exn IndexError (lit ''single positional indexer is out-of-bounds''))
   \<and> (\<exists>calls r. search_teams timeout_api (PStr (lit ''Arsenal'')) = (calls, Inr r)
        \<and> map_of r (lit ''success'') = Some (PBool False))
   \<and> (\<exists>calls. get_stock_price empty_history_yf (PStr (lit ''ZZZZ'')) =
        (calls, Inr [(lit ''error'',
                        PStr (lit ''Failed to retrieve stock information: '' @
                              lit ''single positional indexer is out-of-bounds'')),
                     (lit ''ticker'', PStr (lit ''ZZZZ''))]))"
proof -
  have a: "snd (search_teams_try timeout_api (PStr (lit ''Arsenal''))) =
     Inl (Exn Timeout (lit ''Read timed out.''))"
    using search_teams_try_valid [of "lit ''Arsenal''" timeout_api] match_Arsenal
    by (simp add: strip_Arsenal timeout_api_def)
  have b: "snd (get_stock_price_try empty_history_yf (PStr (lit ''ZZZZ''))) =
     Inl (Exn IndexError (lit ''single positional indexer is out-of-bounds''))"
    by (simp add: empty_history_run)
  from adapters_never_raise [of timeout_api "PStr (lit ''Arsenal'')" empty_history_yf
      "PStr (lit ''ZZZZ'')"] a b
  show ?thesis by auto
qed

text \<open>
  Claim C8 as stated fails: an \<open>IndexError\<close> that arises inside \<open>get_stock_price\<close> (the
  price table has no row) is caught, but the dictionary it is converted into has no
  \<open>success\<close> entry, so it is not the \<open>success = False\<close> shape.
\<close>

theorem stock_error_has_no_success_field:
  "get_stock_price empty_history_yf (PStr (lit ''ZZZZ'')) =
     ([Ticker (PStr (lit ''ZZZZ'')), Info, History],
      Inr (stock_error_result (PStr (lit ''ZZZZ''))
             (Exn IndexError (lit ''single positional indexer is out-of-bounds''))))
   \<and> map_of (stock_error_result (PStr (lit ''ZZZZ''))
             (Exn IndexError (lit ''single positional indexer is out-of-bounds'')))
        (lit ''success'') = None"
  by (simp add: get_stock_price_def empty_history_run) (simp add: stock_error_result_def)


section \<open>The command-line runner\<close>

text \<open>
  Claim C9, as amended. When a second positional argument is given and \<open>json.loads\<close>
  rejects it with a \<open>JSONDecodeError\<close>, \<open>main\<close> prints one block, the invalid-JSON message
  between the lines \<open>AGENT_ERROR_START\<close> and \<open>AGENT_ERROR_END\<close>, leaves through
  \<open>sys.exit(1)\<close>, so the exit status is 1, and has passed no message to the agent runtime.
  (The condition is the verdict of \<open>json.loads\<close>, not the JSON grammar.)
\<close>

theorem invalid_context_json_aborts:
  assumes "length argv > 2"
    and "json_loads rt (argv ! 2) = Inl e"
    and "isinstance e JSONDecodeError"
  shows "main rt argv w =
      (w\<lparr>stdout := stdout w @ lit ''AGENT_ERROR_START'' @ newline @
                     lit ''Invalid context JSON: '' @ exn_str e @ newline @
                     lit ''AGENT_ERROR_END'' @ newline\<rparr>,
       SystemExit 1)
    \<and> exit_status (snd (main rt argv w)) = 1
    \<and> runtime_calls (fst (main rt argv w)) = runtime_calls w"
proof -
  have "main_try rt argv w =
      (w\<lparr>stdout := stdout w @ lit ''AGENT_ERROR_START'' @ newline @
                     lit ''Invalid context JSON: '' @ exn_str e @ newline @
                     lit ''AGENT_ERROR_END'' @ newline\<rparr>,
       SystemExit 1)"
    using assms by (simp add: main_try_def print_def)
  then show ?thesis by (simp add: main_def)
qed

text \<open>The theorem at the command line \<open>agent_runner.py hi not-json\<close>.\<close>

theorem invalid_context_json_aborts_witness:
  "length [lit ''agent_runner.py'', lit ''hi'', lit ''not-json''] > 2
   \<and> isinstance (Exn JSONDecodeError (lit ''Expecting value: line 1 column 1 (char 0)''))
        JSONDecodeError
   \<and> main bad_json_runtime [lit ''agent_runner.py'', lit ''hi'', lit ''not-json''] fresh_world =
      (\<lparr>stdout = lit ''AGENT_ERROR_START'' @ newline @
                  lit ''Invalid context JSON: Expecting value: line 1 column 1 (char 0)'' @
                  newline @ lit ''AGENT_ERROR_END'' @ newline,
        runtime_calls = []\<rparr>,
       SystemExit 1)"
proof -
  have a: "length [lit ''agent_runner.py'', lit ''hi'', lit ''not-json''] > 2" by simp
  have b: "json_loads bad_json_runtime
             ([lit ''agent_runner.py'', lit ''hi'', lit ''not-json''] ! 2) =
           Inl (Exn JSONDecodeError (lit ''Expecting value: line 1 column 1 (char 0)''))"
    by (simp add: bad_json_runtime_def)
  have c: "isinstance (Exn JSONDecodeError (lit ''Expecting value: line 1 column 1 (char 0)''))
             JSONDecodeError"
    by (simp add: isinstance_def)
  from invalid_context_json_aborts [OF a b c, of fresh_world] a c
  show ?thesis by (simp add: fresh_world_def lit_def)
qed

text \<open>
  Claim C9 as stated fails: \<open>NaN\<close> is not valid JSON, yet \<open>json.loads\<close> accepts it, so at
  the command line \<open>agent_runner.py hi NaN\<close> the runner passes the message to the agent
  runtime, prints the response between \<open>AGENT_RESPONSE_START\<close> and \<open>AGENT_RESPONSE_END\<close>
  and ends with exit status 0.
\<close>

theorem nan_context_reaches_the_runtime:
  "json_loads nan_json_runtime (lit ''NaN'') = Inr (PFloat NaN)
   \<and> main nan_json_runtime [lit ''agent_runner.py'', lit ''hi'', lit ''NaN''] fresh_world =
      (\<lparr>stdout = lit ''AGENT_RESPONSE_START'' @ newline @ lit ''Hello'' @ newline @
                  lit ''AGENT_RESPONSE_END'' @ newline,
        runtime_calls = [lit ''hi'']\<rparr>,
       Completed)
   \<and> exit_status (snd (main nan_json_runtime
          [lit ''agent_runner.py'', lit ''hi'', lit ''NaN''] fresh_world)) = 0"
proof -
  have st: "strip (lit ''Hello'') = lit ''Hello''"
    by (simp add: strip_def lit_def isspace_def)
  have run: "run_agent nan_json_runtime (lit ''hi'') fresh_world =
      (\<lparr>stdout = [], runtime_calls = [lit ''hi'']\<rparr>, Inr (lit ''Hello''))"
    by (simp add: run_agent_def nan_json_runtime_def fresh_world_def chunk_piece_def st)
  have parsed: "json_loads nan_json_runtime (lit ''NaN'') = Inr (PFloat NaN)"
    by (simp add: nan_json_runtime_def)
  have "main_try nan_json_runtime [lit ''agent_runner.py'', lit ''hi'', lit ''NaN''] fresh_world =
      (\<lparr>stdout = lit ''AGENT_RESPONSE_START'' @ newline @ lit ''Hello'' @ newline @
                  lit ''AGENT_RESPONSE_END'' @ newline,
        runtime_calls = [lit ''hi'']\<rparr>,
       Completed)"
    by (simp add: main_try_def parsed run print_def)
  then show ?thesis by (simp add: main_def parsed)
qed

end
